theory Spec2Isabelle
  imports Main "HOL-Library.Sublist"
begin

section \<open>Python values shared by the transport, the server and the client\<close>

text \<open>A Python value that is either a string or \<open>None\<close>.\<close>

type_synonym pystr = "string option"

text \<open>
  The exceptions the ParlayX USSD code raises and inspects. \<open>SoapFault(code, string)\<close>
  carries a fault code and a fault string; \<open>KeyError\<close> carries the \<open>repr\<close> of the
  missing key; \<open>PyError cls msg\<close> is any other exception (a \<open>ValueError\<close>, a
  \<open>ParseError\<close>, a connection error) with its class name and message.
\<close>

datatype exc =
    ServiceException (code: string) (faultstring: string)
  | PolicyException (code: string) (faultstring: string)
  | SoapFault (code: string) (faultstring: string)
  | KeyError string
  | IndexError string
  | PyError string string

datatype exc_class = ServiceException_class | PolicyException_class | SoapFault_class

text \<open>
  Modelled from the spec: the class declarations of \<open>ServiceException\<close> and
  \<open>PolicyException\<close> (vumi.transports.parlayx.client) and of \<open>SoapFault\<close>
  (vumi.transports.parlayx.soaputil) are not among the sources. The spec (section 9)
  describes the service/policy/generic fault distinction as exception subclassing, and the
  transport tests build both domain faults with the \<open>(code, string)\<close> arguments of
  \<open>SoapFault\<close>: both are subclasses of \<open>SoapFault\<close>.
\<close>

fun isinstance :: "exc \<Rightarrow> exc_class \<Rightarrow> bool" where
  "isinstance (ServiceException c s) k = (k = ServiceException_class \<or> k = SoapFault_class)"
| "isinstance (PolicyException c s) k = (k = PolicyException_class \<or> k = SoapFault_class)"
| "isinstance (SoapFault c s) k = (k = SoapFault_class)"
| "isinstance (KeyError a) k = False"
| "isinstance (IndexError a) k = False"
| "isinstance (PyError n a) k = False"

text \<open>\<open>Failure.check(*classes)\<close>: does the failure's exception belong to one of the classes.\<close>

definition check :: "exc \<Rightarrow> exc_class list \<Rightarrow> bool" where
  "check f classes = list_ex (isinstance f) classes"

text \<open>\<open>Failure.getErrorMessage()\<close>: the string form of the exception.\<close>

fun getErrorMessage :: "exc \<Rightarrow> string" where
  "getErrorMessage (ServiceException c s) = s"
| "getErrorMessage (PolicyException c s) = s"
| "getErrorMessage (SoapFault c s) = s"
| "getErrorMessage (KeyError a) = a"
| "getErrorMessage (IndexError a) = a"
| "getErrorMessage (PyError n a) = a"

text \<open>Python's \<open>str.endswith\<close>.\<close>

definition endswith :: "string \<Rightarrow> string \<Rightarrow> bool" where
  "endswith s suf = (length suf \<le> length s \<and> drop (length s - length suf) s = suf)"

text \<open>Decimal digits of a natural number, as \<open>str(n)\<close> and \<open>repr(n)\<close> print them.\<close>

definition digit_char :: "nat \<Rightarrow> char" where
  "digit_char d = ''0123456789'' ! (d mod 10)"

function str_nat :: "nat \<Rightarrow> string" where
  "str_nat n = (if n < 10 then [digit_char n] else str_nat (n div 10) @ [digit_char (n mod 10)])"
  by pat_completeness auto
termination
  by (relation "measure id") auto

declare str_nat.simps [simp del]

text \<open>\<open>repr\<close> of a string key, as \<open>KeyError\<close> prints it.\<close>

definition repr_str :: "string \<Rightarrow> string" where
  "repr_str s = [CHR 0x27] @ s @ [CHR 0x27]"

section \<open>The transport (parlayx.py)\<close>

subsection \<open>Session events\<close>

text \<open>
  The constants \<open>TransportUserMessage.SESSION_NEW\<close>, \<open>SESSION_RESUME\<close> and
  \<open>SESSION_CLOSE\<close>.
\<close>

datatype session_event = SESSION_NEW | SESSION_RESUME | SESSION_CLOSE

definition determine_session_event :: "pystr \<Rightarrow> session_event" where
  "determine_session_event msg_type =
     (if msg_type = Some ''0'' then SESSION_NEW
      else if msg_type = Some ''1'' then SESSION_RESUME
      else SESSION_CLOSE)"

subsection \<open>Messages, events and the transport's state\<close>

text \<open>
  The \<open>USSDMessage\<close> named tuple of server.py, in the order of its fields. Every field
  is read with \<open>gettext\<close>, which gives \<open>None\<close> for an element that is missing.
\<close>

record USSDMessage =
  msgType :: pystr
  senderCB :: pystr
  receiveCB :: pystr
  ussdOpType :: pystr
  msisdn :: pystr
  serviceCode :: pystr
  codeScheme :: pystr
  ussdString :: pystr

text \<open>The named tuple as the tuple it is: what \<open>parlayx_ussd[i]\<close> indexes.\<close>

definition astuple :: "USSDMessage \<Rightarrow> pystr list" where
  "astuple m = [msgType m, senderCB m, receiveCB m, ussdOpType m, msisdn m,
                serviceCode m, codeScheme m, ussdString m]"

text \<open>The keyword arguments of one \<open>publish_message\<close> call: one inbound event.\<close>

record inbound_event =
  content :: pystr
  to_addr :: pystr
  from_addr :: pystr
  provider :: string
  session_event :: session_event
  transport_type :: string
  transport_metadata :: "pystr list"

text \<open>
  The fields of an outbound message that \<open>handle_outbound_message\<close> reads.
  \<open>out_parlayx_ussd\<close> is \<open>transport_metadata['parlayx_ussd']\<close>, \<open>None\<close> when
  either key is missing.
\<close>

record outbound_message =
  message_id :: string
  out_to_addr :: pystr
  out_content :: pystr
  out_session_event :: pystr
  out_parlayx_ussd :: "pystr list option"

text \<open>The acknowledgement events \<open>publish_ack\<close> and \<open>publish_nack\<close> emit.\<close>

datatype event =
    Ack string string
  | Nack string string

text \<open>
  The state the transport works on: the session store, the inbound events published so
  far and the acknowledgement events published so far, oldest first.
\<close>

record tstate =
  sessions :: "pystr \<rightharpoonup> (string \<rightharpoonup> pystr)"
  published :: "inbound_event list"
  events :: "event list"


definition publish_nack :: "string \<Rightarrow> string \<Rightarrow> tstate \<Rightarrow> tstate" where
  "publish_nack user_message_id reason st =
     st\<lparr>events := events st @ [Nack user_message_id reason]\<rparr>"

definition publish_message :: "inbound_event \<Rightarrow> tstate \<Rightarrow> tstate" where
  "publish_message ev st = st\<lparr>published := published st @ [ev]\<rparr>"

subsection \<open>Outbound messages\<close>

text \<open>
  How the deferred of an outbound send ends when it fails: with a raised
  \<open>TemporaryFailure(f)\<close>, a raised \<open>PermanentFailure(f)\<close>, or the failure \<open>f\<close>
  itself, returned as it came.
\<close>

datatype failure =
    TemporaryFailure exc
  | PermanentFailure exc
  | Failure exc

text \<open>
  \<open>f.value.code\<close> is read only when the two checks before it have passed, as the
  nested conditions of the source do.
\<close>

definition handle_outbound_message_failure ::
    "exc \<Rightarrow> outbound_message \<Rightarrow> tstate \<Rightarrow> failure \<times> tstate" where
  "handle_outbound_message_failure f message st =
     (if \<not> check f [ServiceException_class, PolicyException_class]
         \<and> check f [SoapFault_class] \<and> endswith (code f) ''Server''
      then (TemporaryFailure f, st)
      else
        (let st' = publish_nack (message_id message) (getErrorMessage f) st
         in if check f [SoapFault_class] then (PermanentFailure f, st')
            else (Failure f, st')))"





subsection \<open>Inbound notifications\<close>

text \<open>
  Modelled from the spec: \<open>SessionManager\<close> (vumi.components.session) is not among
  the sources. The spec's session store is a key-value store holding the session's fields
  under the session identifier. \<open>create_session(session_id, **kwargs)\<close> writes the
  record; \<open>load_session(session_id)\<close> reads it and gives a record with no fields for an
  identifier the store does not hold (the caller then finds the field missing, as the
  sibling transport mtech_ussd tests with \<open>'from_addr' not in session\<close>). The creation
  time and the expiry the real store adds are left out.
\<close>

definition create_session ::
    "pystr \<Rightarrow> (string \<rightharpoonup> pystr) \<Rightarrow> tstate \<Rightarrow> tstate" where
  "create_session session_id kwargs st = st\<lparr>sessions := (sessions st)(session_id \<mapsto> kwargs)\<rparr>"

definition load_session :: "pystr \<Rightarrow> tstate \<Rightarrow> (string \<rightharpoonup> pystr)" where
  "load_session session_id st =
     (case sessions st session_id of None \<Rightarrow> Map.empty | Some session \<Rightarrow> session)"

definition handle_raw_inbound_message ::
    "pystr \<Rightarrow> pystr \<Rightarrow> USSDMessage \<Rightarrow> tstate \<Rightarrow> (exc + unit) \<times> tstate" where
  "handle_raw_inbound_message session_id linkid inbound_message st =
     (let session_event' = determine_session_event (msgType inbound_message)
      in if session_event' = SESSION_NEW then
           (let content' = None;
                to_addr' = serviceCode inbound_message;
                st1 = create_session session_id [''ussd_code'' \<mapsto> to_addr'] st
            in (Inr (),
                publish_message
                  \<lparr>content = content', to_addr = to_addr',
                   from_addr = msisdn inbound_message, provider = ''parlayx_ussd'',
                   session_event = session_event', transport_type = ''ussd'',
                   transport_metadata = astuple inbound_message\<rparr> st1))
         else
           (let session = load_session session_id st
            in case session ''ussd_code'' of
                 None \<Rightarrow> (Inl (KeyError (repr_str ''ussd_code'')), st)
               | Some to_addr' \<Rightarrow>
                   (let content' = ussdString inbound_message
                    in (Inr (),
                        publish_message
                          \<lparr>content = content', to_addr = to_addr',
                           from_addr = msisdn inbound_message, provider = ''parlayx_ussd'',
                           session_event = session_event', transport_type = ''ussd'',
                           transport_metadata = astuple inbound_message\<rparr> st))))"

section \<open>XML documents and SOAP envelopes\<close>

text \<open>
  The namespaces the code names. \<open>NOTIFICATION_NS\<close> (server.py), \<open>SEND_NS\<close> and
  \<open>NOTIFICATION_MANAGER_NS\<close> (client.py) are declared in the sources;
  \<open>SOAP_ENV\<close>, \<open>PARLAYX_COMMON_NS\<close> and \<open>PARLAYX_HEAD_NS\<close> are imported from
  modules that are not. \<open>OtherNS uri\<close> is any other namespace. A qualified name is a
  namespace (\<open>None\<close> for \<open>LocalNamespace\<close>) and a local name, so that
  \<open>split_qualified(tag)[1]\<close> is the second component.
\<close>

datatype namespace =
    SOAP_ENV
  | NOTIFICATION_NS
  | PARLAYX_COMMON_NS
  | PARLAYX_HEAD_NS
  | SEND_NS
  | NOTIFICATION_MANAGER_NS
  | OtherNS string

type_synonym qname = "namespace option \<times> string"

text \<open>An element: its tag, its text (\<open>None\<close> when it has none) and its child elements.\<close>

datatype xml = Element (tag: qname) (elem_text: pystr) (getchildren: "xml list")

definition split_qualified :: "qname \<Rightarrow> namespace option \<times> string" where
  "split_qualified fqname = fqname"

text \<open>
  Modelled from the spec: \<open>elemfind\<close> and \<open>gettext\<close> (vumi.transports.parlayx.xmlutil)
  are not among the sources. \<open>elemfind(elem, name)\<close> gives the first child with the
  qualified name; \<open>gettext(elem, './/' + name, default, parse)\<close> gives the text of the
  first descendant with the qualified name, in document order, passed through
  \<open>parse\<close>, and \<open>default\<close> when there is no such element or it has no text. The server
  tests read the fields of a notification this way.
\<close>

definition elemfind :: "xml \<Rightarrow> qname \<Rightarrow> xml option" where
  "elemfind elem name = find (\<lambda>c. tag c = name) (getchildren elem)"

fun descendants :: "xml \<Rightarrow> xml list" where
  "descendants (Element t x cs) = concat (map (\<lambda>c. c # descendants c) cs)"

definition gettext :: "xml \<Rightarrow> qname \<Rightarrow> pystr \<Rightarrow> (string \<Rightarrow> string) \<Rightarrow> pystr" where
  "gettext elem name dflt parse =
     (case find (\<lambda>e. tag e = name) (descendants elem) of
        None \<Rightarrow> dflt
      | Some e \<Rightarrow> (case elem_text e of None \<Rightarrow> dflt | Some t \<Rightarrow> Some (parse t)))"

text \<open>
  Modelled from the spec: \<open>soap_envelope\<close>, \<open>unwrap_soap_envelope\<close>, \<open>soap_fault\<close>
  and \<open>SoapFault.to_element\<close> (vumi.transports.parlayx.soaputil) are not among the
  sources. The spec's \<open>wrap(body, header=None)\<close> builds the envelope document around
  a body and an optional header; \<open>unwrap(document)\<close> gives the envelope's body element
  and its header element, and fails when no body element is present. The callers in the
  sources fix the shapes: \<open>process\<close> iterates over the children of the body it is given,
  the client tests look the operation up inside the unwrapped body and the
  \<open>RequestSOAPHeader\<close> inside the unwrapped header, and the server tests expect
  \<open>soapenv:Client\<close>, \<open>Malformed SOAP request\<close> for a document with no body and a
  \<open>Fault\<close> element with \<open>faultcode\<close> and \<open>faultstring\<close> children.
\<close>

definition soap_envelope :: "xml \<Rightarrow> xml option \<Rightarrow> xml" where
  "soap_envelope body header =
     Element (Some SOAP_ENV, ''Envelope'') None
       ((case header of
           None \<Rightarrow> []
         | Some h \<Rightarrow> [Element (Some SOAP_ENV, ''Header'') None [h]])
        @ [Element (Some SOAP_ENV, ''Body'') None [body]])"

definition unwrap_soap_envelope :: "xml \<Rightarrow> exc + (xml \<times> xml option)" where
  "unwrap_soap_envelope root =
     (let header = elemfind root (Some SOAP_ENV, ''Header'');
          body = elemfind root (Some SOAP_ENV, ''Body'')
      in case body of
           None \<Rightarrow> Inl (SoapFault ''soapenv:Client'' ''Malformed SOAP request'')
         | Some b \<Rightarrow> Inr (b, header))"

definition soap_fault :: "string \<Rightarrow> string \<Rightarrow> xml" where
  "soap_fault faultcode faultstring' =
     Element (Some SOAP_ENV, ''Fault'') None
       [Element (None, ''faultcode'') (Some faultcode) [],
        Element (None, ''faultstring'') (Some faultstring') []]"

definition to_element :: "exc \<Rightarrow> xml" where
  "to_element f = soap_fault (code f) (faultstring f)"

section \<open>The notification service (server.py)\<close>

text \<open>
  \<open>USSDMessage.from_element\<close>. \<open>normalize_address\<close> (vumi.transports.parlayx.server)
  is not among the sources and is a parameter.
\<close>

definition from_element :: "(string \<Rightarrow> string) \<Rightarrow> xml \<Rightarrow> USSDMessage" where
  "from_element normalize_address root =
     \<lparr>msgType = gettext root (Some NOTIFICATION_NS, ''msgType'') None id,
      senderCB = gettext root (Some NOTIFICATION_NS, ''senderCB'') None id,
      receiveCB = gettext root (Some NOTIFICATION_NS, ''receiveCB'') None id,
      ussdOpType = gettext root (Some NOTIFICATION_NS, ''ussdOpType'') None id,
      msisdn = gettext root (Some NOTIFICATION_NS, ''msIsdn'') None normalize_address,
      serviceCode = gettext root (Some NOTIFICATION_NS, ''serviceCode'') None id,
      codeScheme = gettext root (Some NOTIFICATION_NS, ''codeScheme'') None id,
      ussdString = gettext root (Some NOTIFICATION_NS, ''ussdString'') None id\<rparr>"

text \<open>
  \<open>callback_message_received\<close>, the service's constructor argument: called with the
  session identifier, the link identifier and the message, it works on a state of the
  caller's and ends with a value or with a failure.
\<close>

type_synonym ('r, 's) callback =
  "pystr \<Rightarrow> pystr \<Rightarrow> USSDMessage \<Rightarrow> 's \<Rightarrow> (exc + 'r) \<times> 's"

text \<open>The request: \<open>request.content\<close>, the posted bytes.\<close>

record request =
  request_content :: string

text \<open>
  What \<open>render_POST\<close> leaves on the request: the response code and the document
  written (\<open>tostring\<close>, its serialisation, and the content type header are left out).
\<close>

record response =
  responseCode :: nat
  written :: xml

definition OK :: nat where
  "OK = 200"

definition INTERNAL_SERVER_ERROR :: nat where
  "INTERNAL_SERVER_ERROR = 500"

definition process_unknown :: "xml \<Rightarrow> xml option \<Rightarrow> string \<Rightarrow> 's \<Rightarrow> (exc + xml) \<times> 's" where
  "process_unknown root header name st =
     (Inl (SoapFault ''soapenv:Server'' (''No handler for '' @ name)), st)"

definition process_notifyUssdReception ::
    "(string \<Rightarrow> string) \<Rightarrow> ('r, 's) callback \<Rightarrow> xml \<Rightarrow> xml option \<Rightarrow> string \<Rightarrow> 's
       \<Rightarrow> (exc + xml) \<times> 's" where
  "process_notifyUssdReception normalize_address callback_message_received root header name st =
     (let linkid =
            (case header of
               None \<Rightarrow> None
             | Some h \<Rightarrow> gettext h (Some PARLAYX_COMMON_NS, ''linkid'') None id);
          message = from_element normalize_address root
      in case callback_message_received (senderCB message) linkid message st of
           (Inl f, st') \<Rightarrow> (Inl f, st')
         | (Inr ignored, st') \<Rightarrow>
             (Inr (Element (Some NOTIFICATION_NS, ''notifyUssdReceptionResponse'') None
                     [Element (Some NOTIFICATION_NS, ''result'') (Some ''0'') []]), st'))"

text \<open>
  The methods \<open>getattr(self, 'process_' + localname, self.process_unknown)\<close> can find
  on the service: the two whose names start with \<open>process_\<close>.
\<close>

datatype handler = Process_unknown | Process_notifyUssdReception

definition service_methods :: "(string \<times> handler) list" where
  "service_methods =
     [(''process_unknown'', Process_unknown),
      (''process_notifyUssdReception'', Process_notifyUssdReception)]"

definition getattr :: "string \<Rightarrow> handler \<Rightarrow> handler" where
  "getattr name dflt = (case map_of service_methods name of None \<Rightarrow> dflt | Some m \<Rightarrow> m)"

definition process ::
    "(string \<Rightarrow> string) \<Rightarrow> ('r, 's) callback \<Rightarrow> request \<Rightarrow> xml \<Rightarrow> xml option \<Rightarrow> 's
       \<Rightarrow> (exc + xml) \<times> 's" where
  "process normalize_address callback_message_received req body header st =
     (case getchildren body of
        [] \<Rightarrow> (Inl (SoapFault ''soapenv:Client'' ''No actionable items''), st)
      | child # others \<Rightarrow>
          (let localname = snd (split_qualified (tag child));
               meth = getattr (''process_'' @ localname) Process_unknown
           in case meth of
                Process_unknown \<Rightarrow> process_unknown child header localname st
              | Process_notifyUssdReception \<Rightarrow>
                  process_notifyUssdReception normalize_address callback_message_received
                    child header localname st))"

text \<open>
  The callbacks of \<open>render_POST\<close>: \<open>_handleError\<close> and \<open>_handleSuccess\<close>, each
  followed by \<open>_writeResponse\<close>, which writes the envelope around what it is given.
\<close>

definition handleError :: "exc \<Rightarrow> response" where
  "handleError f =
     \<lparr>responseCode = INTERNAL_SERVER_ERROR,
      written =
        soap_envelope
          (if check f [SoapFault_class] then to_element f
           else soap_fault ''soapenv:Server'' (getErrorMessage f))
          None\<rparr>"

definition handleSuccess :: "xml \<Rightarrow> response" where
  "handleSuccess result = \<lparr>responseCode = OK, written = soap_envelope result None\<rparr>"

text \<open>
  \<open>render_POST\<close>. \<open>parse_document\<close> (vumi.transports.parlayx.xmlutil) is not among the
  sources and is a parameter: it gives the document or raises. Whatever
  \<open>parse_document\<close> or \<open>unwrap_soap_envelope\<close> raises is caught by the bare
  \<open>except\<close> and becomes the failure the error callback turns into the response.
\<close>

definition render_POST ::
    "(string \<Rightarrow> exc + xml) \<Rightarrow> (string \<Rightarrow> string) \<Rightarrow> ('r, 's) callback \<Rightarrow> request \<Rightarrow> 's
       \<Rightarrow> response \<times> 's" where
  "render_POST parse_document normalize_address callback_message_received req st =
     (case (case parse_document (request_content req) of
              Inl e \<Rightarrow> Inl e
            | Inr tree \<Rightarrow> unwrap_soap_envelope tree) of
        Inl f \<Rightarrow> (handleError f, st)
      | Inr (body, header) \<Rightarrow>
          (case process normalize_address callback_message_received req body header st of
             (Inr result, st') \<Rightarrow> (handleSuccess result, st')
           | (Inl f, st') \<Rightarrow> (handleError f, st')))"

section \<open>The client's request header (client.py)\<close>

record ParlayXUSSDClient =
  service_provider_service_id :: string
  service_provider_id :: string
  service_provider_password :: string
  short_code :: string
  endpoint :: string
  send_uri :: string
  notification_uri :: string
  service_correlator :: string

text \<open>What \<open>self._now()\<close> reads from the clock: a \<open>datetime\<close>.\<close>

record datetime =
  year :: nat
  month :: nat
  day :: nat
  hour :: nat
  minute :: nat
  second :: nat

text \<open>
  The values a \<open>datetime\<close> can hold whose year prints with four digits.
\<close>

definition valid_datetime :: "datetime \<Rightarrow> bool" where
  "valid_datetime d =
     (1000 \<le> year d \<and> year d \<le> 9999 \<and> 1 \<le> month d \<and> month d \<le> 12 \<and> 1 \<le> day d \<and> day d \<le> 31
      \<and> hour d \<le> 23 \<and> minute d \<le> 59 \<and> second d \<le> 59)"

definition zfill :: "nat \<Rightarrow> string \<Rightarrow> string" where
  "zfill width s = replicate (width - length s) CHR ''0'' @ s"

text \<open>
  Modelled from the spec: \<open>format_timestamp\<close> and \<open>make_password\<close>
  (vumi.transports.parlayx.client) are not among the sources. The timestamp is the
  spec's fixed-width numeric date-time string with no separators: year, month, day,
  hour, minute and second, zero-padded, as the client tests show
  (\<open>20130618105933\<close>). The credential is the spec's fixed one-way hash of the
  concatenation of provider id, password and formatted timestamp; the hash function
  itself is a parameter.
\<close>

definition format_timestamp :: "datetime \<Rightarrow> string" where
  "format_timestamp when =
     zfill 4 (str_nat (year when)) @ zfill 2 (str_nat (month when))
     @ zfill 2 (str_nat (day when)) @ zfill 2 (str_nat (hour when))
     @ zfill 2 (str_nat (minute when)) @ zfill 2 (str_nat (second when))"

definition make_password :: "(string \<Rightarrow> string) \<Rightarrow> string \<Rightarrow> string \<Rightarrow> string \<Rightarrow> string" where
  "make_password hash spid password timestamp = hash (spid @ password @ timestamp)"

text \<open>\<open>NS.name(text)\<close>: an element of the namespace holding just the text.\<close>

definition text_element :: "namespace \<Rightarrow> string \<Rightarrow> string \<Rightarrow> xml" where
  "text_element ns name t = Element (Some ns, name) (Some t) []"

text \<open>
  \<open>_make_header\<close>, with the hash function and the clock's reading \<open>now\<close> as
  arguments.
\<close>

definition make_header ::
    "(string \<Rightarrow> string) \<Rightarrow> ParlayXUSSDClient \<Rightarrow> datetime \<Rightarrow> pystr \<Rightarrow> pystr \<Rightarrow> xml" where
  "make_header hash self now service_subscription_address linkid =
     (let timestamp = format_timestamp now;
          other =
            (case service_subscription_address of
               None \<Rightarrow> []
             | Some a \<Rightarrow> [text_element PARLAYX_HEAD_NS ''OA'' a])
            @ (case linkid of
                 None \<Rightarrow> []
               | Some l \<Rightarrow> [text_element PARLAYX_HEAD_NS ''linkid'' l])
      in Element (Some PARLAYX_HEAD_NS, ''RequestSOAPHeader'') None
           ([text_element PARLAYX_HEAD_NS ''spId'' (service_provider_id self),
             text_element PARLAYX_HEAD_NS ''spPassword''
               (make_password hash (service_provider_id self)
                  (service_provider_password self) timestamp),
             text_element PARLAYX_HEAD_NS ''serviceId'' (service_provider_service_id self),
             text_element PARLAYX_HEAD_NS ''timeStamp'' timestamp]
            @ other))"

section \<open>Inputs of the test suite\<close>

text \<open>\<open>create_ussd_reception_element\<close> of tests/utils.py.\<close>

definition create_ussd_reception_element ::
    "string \<Rightarrow> string \<Rightarrow> string \<Rightarrow> string \<Rightarrow> string \<Rightarrow> string \<Rightarrow> xml" where
  "create_ussd_reception_element msgType' senderCB' ussdOpType' ussdString' sender_address
       serviceCode' =
     Element (Some NOTIFICATION_NS, ''notifyUssdReception'') None
       [text_element NOTIFICATION_NS ''msgType'' msgType',
        text_element NOTIFICATION_NS ''senderCB'' senderCB',
        text_element NOTIFICATION_NS ''receiveCB'' senderCB',
        text_element NOTIFICATION_NS ''ussdOpType'' ussdOpType',
        text_element NOTIFICATION_NS ''msIsdn'' sender_address,
        text_element NOTIFICATION_NS ''serviceCode'' serviceCode',
        text_element NOTIFICATION_NS ''ussdString'' ussdString']"


definition resume_notification :: xml where
  "resume_notification =
     soap_envelope
       (create_ussd_reception_element ''1'' ''123456'' ''1'' ''hello'' ''27117654321'' ''909'')
       None"

text \<open>
  \<open>parse_document\<close> is a parameter. On one posted content it gives one answer: the
  stand-in below gives that answer, the document the content serialises or the error
  the parser raises (\<open>ParseError\<close> for the content \<open>sup\<close> of
  test_render_invalid_xml).
\<close>

definition canned_parse_document :: "exc + xml \<Rightarrow> string \<Rightarrow> exc + xml" where
  "canned_parse_document answer posted = answer"

definition invalid_xml :: request where
  "invalid_xml = \<lparr>request_content = ''sup''\<rparr>"

definition parse_error :: exc where
  "parse_error = PyError ''ParseError'' ''syntax error: line 1, column 0''"

text \<open>A request whose content serialises an envelope.\<close>

definition envelope_request :: request where
  "envelope_request = \<lparr>request_content = ''<soapenv:Envelope>...</soapenv:Envelope>''\<rparr>"

text \<open>
  The bodies of test_process_empty and test_process_unknown: \<open>L.root()\<close> and
  \<open>L.root(L.WhatIsThis)\<close>.
\<close>

definition empty_root :: xml where
  "empty_root = Element (None, ''root'') None []"

definition unknown_root :: xml where
  "unknown_root = Element (None, ''root'') None [Element (None, ''WhatIsThis'') None []]"

text \<open>
  The address normaliser the server tests show: \<open>27117654321\<close> becomes
  \<open>+27117654321\<close>.
\<close>

definition plus_prefix :: "string \<Rightarrow> string" where
  "plus_prefix address = CHR ''+'' # address"


text \<open>A transport that has neither sessions nor published anything.\<close>

definition empty_state :: tstate where
  "empty_state = \<lparr>sessions = Map.empty, published = [], events = []\<rparr>"

text \<open>
  An outbound reply to the notification above: its metadata is the notification's
  tuple, as \<open>handle_raw_inbound_message\<close> publishes it.
\<close>

definition reply_message :: outbound_message where
  "reply_message =
     \<lparr>message_id = ''1'', out_to_addr = Some ''+27117654321'', out_content = Some ''hi'',
      out_session_event = None,
      out_parlayx_ussd =
        Some [Some ''0'', Some ''123456'', Some ''123456'', Some ''1'', Some ''+27117654321'',
              Some ''909'', None, Some ''*909*100#'']\<rparr>"


text \<open>The client of test_client.py and the clock reading its tests fix.\<close>

definition test_client :: ParlayXUSSDClient where
  "test_client =
     \<lparr>service_provider_service_id = ''service_id'', service_provider_id = ''user'',
      service_provider_password = ''password'', short_code = ''short'',
      endpoint = ''endpoint'', send_uri = ''send'', notification_uri = ''notification'',
      service_correlator = ''correlator''\<rparr>"

definition test_now :: datetime where
  "test_now = \<lparr>year = 2013, month = 6, day = 18, hour = 10, minute = 59, second = 33\<rparr>"

section \<open>Properties\<close>

lemma check_service_policy:
  "check f [ServiceException_class, PolicyException_class] =
     (case f of ServiceException c s \<Rightarrow> True | PolicyException c s \<Rightarrow> True | _ \<Rightarrow> False)"
  by (cases f) (simp_all add: check_def)

lemma check_soap:
  "check f [SoapFault_class] =
     (case f of ServiceException c s \<Rightarrow> True | PolicyException c s \<Rightarrow> True
              | SoapFault c s \<Rightarrow> True | _ \<Rightarrow> False)"
  by (cases f) (simp_all add: check_def)

lemma endswith_suffix: "endswith s suf = suffix suf s"
proof
  assume "endswith s suf"
  then have "s = take (length s - length suf) s @ suf"
    by (metis append_take_drop_id endswith_def)
  then show "suffix suf s"
    by (rule suffixI)
next
  assume "suffix suf s"
  then obtain zs where "s = zs @ suf"
    by (auto simp: suffix_def)
  then show "endswith s suf"
    by (simp add: endswith_def)
qed

subsection \<open>C1: the classification of outbound failures\<close>

text \<open>
  C1. \<open>handle_outbound_message_failure\<close> classifies every failure by the rules in
  order: a \<open>ServiceException\<close> or a \<open>PolicyException\<close> ends in
  \<open>PermanentFailure\<close>, whatever its fault code; any other SOAP fault whose code ends
  in \<open>Server\<close> ends in \<open>TemporaryFailure\<close>; any other SOAP fault ends in
  \<open>PermanentFailure\<close>; a failure that is not a SOAP fault is returned as it came.
\<close>

theorem C1_failure_classification:
  "fst (handle_outbound_message_failure (ServiceException c s) message st)
     = PermanentFailure (ServiceException c s)
   \<and> fst (handle_outbound_message_failure (PolicyException c s) message st)
     = PermanentFailure (PolicyException c s)
   \<and> (suffix ''Server'' c \<longrightarrow>
        fst (handle_outbound_message_failure (SoapFault c s) message st)
          = TemporaryFailure (SoapFault c s))
   \<and> (\<not> suffix ''Server'' c \<longrightarrow>
        fst (handle_outbound_message_failure (SoapFault c s) message st)
          = PermanentFailure (SoapFault c s))
   \<and> (\<not> check f [SoapFault_class] \<longrightarrow>
        fst (handle_outbound_message_failure f message st) = Failure f)"
  by (simp add: handle_outbound_message_failure_def check_service_policy check_soap
        endswith_suffix Let_def)

theorem C1_failure_classification_witness:
  "fst (handle_outbound_message_failure (ServiceException ''soapenv:Server'' ''failed'')
          reply_message empty_state)
     = PermanentFailure (ServiceException ''soapenv:Server'' ''failed'')
   \<and> fst (handle_outbound_message_failure (SoapFault ''soapenv:Server'' ''Whoops'')
          reply_message empty_state)
     = TemporaryFailure (SoapFault ''soapenv:Server'' ''Whoops'')
   \<and> fst (handle_outbound_message_failure (SoapFault ''soapenv:Client'' ''failed'')
          reply_message empty_state)
     = PermanentFailure (SoapFault ''soapenv:Client'' ''failed'')
   \<and> fst (handle_outbound_message_failure (PyError ''ValueError'' ''failed'')
          reply_message empty_state)
     = Failure (PyError ''ValueError'' ''failed'')"
  using C1_failure_classification [of "''soapenv:Server''" "''failed''" reply_message empty_state
          "PyError ''ValueError'' ''failed''"]
        C1_failure_classification [of "''soapenv:Server''" "''Whoops''" reply_message empty_state
          "PyError ''ValueError'' ''failed''"]
        C1_failure_classification [of "''soapenv:Client''" "''failed''" reply_message empty_state
          "PyError ''ValueError'' ''failed''"]
  by (simp add: check_def suffix_to_prefix)

subsection \<open>C10: the session event of a message type\<close>

text \<open>
  C10. \<open>determine_session_event\<close> has a value for every message type, the missing one
  included: \<open>'0'\<close> is NEW, \<open>'1'\<close> is RESUME and every other value, not only
  \<open>'2'\<close>, is CLOSE. No message type is rejected.
\<close>

theorem C10_determine_session_event:
  "determine_session_event (Some ''0'') = SESSION_NEW
   \<and> determine_session_event (Some ''1'') = SESSION_RESUME
   \<and> (msg_type \<noteq> Some ''0'' \<and> msg_type \<noteq> Some ''1''
        \<longrightarrow> determine_session_event msg_type = SESSION_CLOSE)"
  by (simp add: determine_session_event_def)

theorem C10_determine_session_event_witness:
  "determine_session_event (Some ''2'') = SESSION_CLOSE
   \<and> determine_session_event (Some ''9'') = SESSION_CLOSE
   \<and> determine_session_event (Some ''new'') = SESSION_CLOSE
   \<and> determine_session_event None = SESSION_CLOSE"
  using C10_determine_session_event [of "Some ''2''"]
        C10_determine_session_event [of "Some ''9''"]
        C10_determine_session_event [of "Some ''new''"]
        C10_determine_session_event [of None]
  by simp

subsection \<open>C2: acknowledgement events of outbound messages\<close>








subsection \<open>C6: dispatch by the operation's local name\<close>

lemma getattr_process:
  "getattr (''process_'' @ localname) Process_unknown =
     (if localname = ''notifyUssdReception'' then Process_notifyUssdReception
      else Process_unknown)"
  by (simp add: getattr_def service_methods_def)

text \<open>
  C6. \<open>process\<close> picks the handler by the local name of the body's first child. A
  body with no child raises the client-class fault \<open>soapenv:Client\<close>; a child whose
  operation has no handler (any local name but \<open>notifyUssdReception\<close>) raises the
  server-class fault \<open>soapenv:Server\<close> whose message names the operation; the
  operation \<open>notifyUssdReception\<close> goes to its handler.
\<close>

theorem C6_dispatch:
  "(getchildren body = [] \<longrightarrow>
      process normalize_address callback req body header st
        = (Inl (SoapFault ''soapenv:Client'' ''No actionable items''), st))
   \<and> (getchildren body = child # others \<and> snd (tag child) \<noteq> ''notifyUssdReception'' \<longrightarrow>
      process normalize_address callback req body header st
        = (Inl (SoapFault ''soapenv:Server'' (''No handler for '' @ snd (tag child))), st))
   \<and> (getchildren body = child # others \<and> snd (tag child) = ''notifyUssdReception'' \<longrightarrow>
      process normalize_address callback req body header st
        = process_notifyUssdReception normalize_address callback child header
            ''notifyUssdReception'' st)"
  by (simp add: process_def getattr_process [simplified] split_qualified_def process_unknown_def
        Let_def)

theorem C6_dispatch_witness:
  "process plus_prefix handle_raw_inbound_message envelope_request empty_root None empty_state
     = (Inl (SoapFault ''soapenv:Client'' ''No actionable items''), empty_state)
   \<and> process plus_prefix handle_raw_inbound_message envelope_request unknown_root None empty_state
     = (Inl (SoapFault ''soapenv:Server'' ''No handler for WhatIsThis''), empty_state)"
  using C6_dispatch [of empty_root plus_prefix handle_raw_inbound_message envelope_request
          None empty_state "Element (None, ''WhatIsThis'') None []" "[]"]
        C6_dispatch [of unknown_root plus_prefix handle_raw_inbound_message envelope_request
          None empty_state "Element (None, ''WhatIsThis'') None []" "[]"]
  by (simp add: empty_root_def unknown_root_def)

subsection \<open>C5: a posted body that is not well-formed XML\<close>

text \<open>
  C5, as the code has it. When \<open>parse_document\<close> raises its parse error, the request
  is answered before any dispatch: whatever the callback, the state is left as it was,
  the response code is 500 and the document written is a fault whose code is the
  server-class \<open>soapenv:Server\<close> and whose string is the parser's message.
\<close>

theorem C5_malformed_xml:
  "parse_document (request_content req) = Inl (PyError cls msg) \<Longrightarrow>
   render_POST parse_document normalize_address callback req st
     = (\<lparr>responseCode = 500,
         written = soap_envelope (soap_fault ''soapenv:Server'' msg) None\<rparr>, st)"
  by (simp add: render_POST_def handleError_def check_def INTERNAL_SERVER_ERROR_def)

theorem C5_malformed_xml_witness:
  "render_POST (canned_parse_document (Inl parse_error)) plus_prefix handle_raw_inbound_message
     invalid_xml empty_state
   = (\<lparr>responseCode = 500,
       written = soap_envelope
         (soap_fault ''soapenv:Server'' ''syntax error: line 1, column 0'') None\<rparr>,
      empty_state)"
  using C5_malformed_xml [of "canned_parse_document (Inl parse_error)" invalid_xml
          "''ParseError''" "''syntax error: line 1, column 0''" plus_prefix
          handle_raw_inbound_message empty_state]
  by (simp add: canned_parse_document_def parse_error_def)

text \<open>
  C5 as stated fails: for the content \<open>sup\<close> of test_render_invalid_xml the fault
  code written is \<open>soapenv:Server\<close>, not a client-class code.
\<close>

theorem C5_counterexample:
  "gettext
     (written (fst (render_POST (canned_parse_document (Inl parse_error)) plus_prefix
        handle_raw_inbound_message invalid_xml empty_state)))
     (None, ''faultcode'') None id = Some ''soapenv:Server''
   \<and> gettext
     (written (fst (render_POST (canned_parse_document (Inl parse_error)) plus_prefix
        handle_raw_inbound_message invalid_xml empty_state)))
     (None, ''faultcode'') None id \<noteq> Some ''soapenv:Client''"
  by (simp add: render_POST_def handleError_def check_def canned_parse_document_def
        parse_error_def soap_envelope_def soap_fault_def gettext_def)

subsection \<open>Shared facts about the notification service\<close>

lemma gettext_parse:
  "gettext elem name None parse = map_option parse (gettext elem name None id)"
  by (simp add: gettext_def split: option.splits)

lemma render_POST_dispatched:
  assumes "parse_document (request_content req) = Inr tree"
    and "unwrap_soap_envelope tree = Inr (body, header)"
  shows "render_POST parse_document normalize_address callback req st =
     (case process normalize_address callback req body header st of
        (Inr result, st') \<Rightarrow> (handleSuccess result, st')
      | (Inl f, st') \<Rightarrow> (handleError f, st'))"
  using assms by (simp add: render_POST_def)

lemma process_notifyUssdReception_callback:
  "process_notifyUssdReception normalize_address callback root header name st =
     (case callback (senderCB (from_element normalize_address root))
             (case header of
                None \<Rightarrow> None
              | Some h \<Rightarrow> gettext h (Some PARLAYX_COMMON_NS, ''linkid'') None id)
             (from_element normalize_address root) st of
        (Inl f, st') \<Rightarrow> (Inl f, st')
      | (Inr ignored, st') \<Rightarrow>
          (Inr (Element (Some NOTIFICATION_NS, ''notifyUssdReceptionResponse'') None
                  [Element (Some NOTIFICATION_NS, ''result'') (Some ''0'') []]), st'))"
  by (simp add: process_notifyUssdReception_def Let_def)

lemma process_reception:
  assumes "getchildren body = root # others"
    and "snd (tag root) = ''notifyUssdReception''"
  shows "process normalize_address callback req body header st =
     process_notifyUssdReception normalize_address callback root header
       ''notifyUssdReception'' st"
  using assms
  by (simp add: process_def getattr_process [simplified] split_qualified_def Let_def)

subsection \<open>C3: a notification for a session the store does not hold\<close>

text \<open>
  What the code does for every such notification: a \<open>notifyUssdReception\<close> whose
  message type is not \<open>'0'\<close> and whose session has no \<open>ussd_code\<close> in the store
  (no record, or a record without the field).
\<close>

lemma handle_raw_not_new:
  assumes "msgType message \<noteq> Some ''0''"
    and "load_session session_id st ''ussd_code'' = None"
  shows "handle_raw_inbound_message session_id linkid message st
     = (Inl (KeyError (repr_str ''ussd_code'')), st)"
  using assms
  by (simp add: handle_raw_inbound_message_def determine_session_event_def Let_def)

lemma unknown_session_response:
  assumes "parse_document (request_content req) = Inr tree"
    and "unwrap_soap_envelope tree = Inr (body, header)"
    and "getchildren body = root # others"
    and "snd (tag root) = ''notifyUssdReception''"
    and "message = from_element normalize_address root"
    and "msgType message \<noteq> Some ''0''"
    and "load_session (senderCB message) st ''ussd_code'' = None"
  shows "handle_raw_inbound_message (senderCB message) linkid message st
           = (Inl (KeyError (repr_str ''ussd_code'')), st)
         \<and> render_POST parse_document normalize_address handle_raw_inbound_message req st
           = (\<lparr>responseCode = 500,
               written = soap_envelope
                 (soap_fault ''soapenv:Server'' (repr_str ''ussd_code'')) None\<rparr>, st)"
proof -
  have raw: "handle_raw_inbound_message (senderCB message) l message st
               = (Inl (KeyError (repr_str ''ussd_code'')), st)" for l
    using assms(6,7) by (rule handle_raw_not_new)
  have "process normalize_address handle_raw_inbound_message req body header st
          = (Inl (KeyError (repr_str ''ussd_code'')), st)"
    using assms(3,4) raw
    by (simp add: process_reception process_notifyUssdReception_callback
          assms(5) [symmetric])
  then have "render_POST parse_document normalize_address handle_raw_inbound_message req st
          = (handleError (KeyError (repr_str ''ussd_code'')), st)"
    using assms(1,2) by (simp add: render_POST_dispatched)
  then show ?thesis
    using raw by (simp add: handleError_def check_def INTERNAL_SERVER_ERROR_def)
qed

lemma resume_parts:
  "unwrap_soap_envelope resume_notification
     = Inr (Element (Some SOAP_ENV, ''Body'') None
              [create_ussd_reception_element ''1'' ''123456'' ''1'' ''hello'' ''27117654321''
                 ''909''], None)"
  by (simp add: resume_notification_def unwrap_soap_envelope_def soap_envelope_def elemfind_def)

lemma tag_created:
  "tag (create_ussd_reception_element mt cb ot us addr sc)
     = (Some NOTIFICATION_NS, ''notifyUssdReception'')"
  by (simp add: create_ussd_reception_element_def)

lemma from_element_created:
  "from_element normalize_address
     (create_ussd_reception_element mt cb ot us addr sc)
   = \<lparr>msgType = Some mt, senderCB = Some cb, receiveCB = Some cb, ussdOpType = Some ot,
      msisdn = Some (normalize_address addr), serviceCode = Some sc, codeScheme = None,
      ussdString = Some us\<rparr>"
  by (simp add: from_element_def create_ussd_reception_element_def text_element_def gettext_def)

text \<open>
  C3. The code misses the case the claim describes. For a RESUME notification of a
  session the store does not hold, \<open>handle_raw_inbound_message\<close> reads
  \<open>session['ussd_code']\<close> without testing the session it has loaded, where the
  sibling transport mtech_ussd tests it and answers 400. The \<open>KeyError\<close> leaves the
  state as it was, so no inbound event is published and no session record is created,
  as the claim says; but it reaches the carrier through the generic error path, as
  response code 500 with a \<open>soapenv:Server\<close> fault, not as the client-class
  rejection of the claim.
\<close>

theorem C3_resume_unknown_session:
  "handle_raw_inbound_message (Some ''123456'') None
     \<lparr>msgType = Some ''1'', senderCB = Some ''123456'', receiveCB = Some ''123456'',
      ussdOpType = Some ''1'', msisdn = Some ''+27117654321'', serviceCode = Some ''909'',
      codeScheme = None, ussdString = Some ''hello''\<rparr> empty_state
     = (Inl (KeyError (repr_str ''ussd_code'')), empty_state)
   \<and> render_POST (canned_parse_document (Inr resume_notification)) plus_prefix
       handle_raw_inbound_message envelope_request empty_state
     = (\<lparr>responseCode = 500,
         written = soap_envelope
           (soap_fault ''soapenv:Server'' (repr_str ''ussd_code'')) None\<rparr>, empty_state)
   \<and> responseCode (fst (render_POST (canned_parse_document (Inr resume_notification))
       plus_prefix handle_raw_inbound_message envelope_request empty_state)) \<noteq> 400"
proof -
  have r: "handle_raw_inbound_message (Some ''123456'') None
     \<lparr>msgType = Some ''1'', senderCB = Some ''123456'', receiveCB = Some ''123456'',
      ussdOpType = Some ''1'', msisdn = Some ''+27117654321'', serviceCode = Some ''909'',
      codeScheme = None, ussdString = Some ''hello''\<rparr> empty_state
     = (Inl (KeyError (repr_str ''ussd_code'')), empty_state)
   \<and> render_POST (canned_parse_document (Inr resume_notification)) plus_prefix
       handle_raw_inbound_message envelope_request empty_state
     = (\<lparr>responseCode = 500,
         written = soap_envelope
           (soap_fault ''soapenv:Server'' (repr_str ''ussd_code'')) None\<rparr>, empty_state)"
    using unknown_session_response [of "canned_parse_document (Inr resume_notification)"
          envelope_request resume_notification
          "Element (Some SOAP_ENV, ''Body'') None
             [create_ussd_reception_element ''1'' ''123456'' ''1'' ''hello'' ''27117654321''
                ''909'']"
          None
          "create_ussd_reception_element ''1'' ''123456'' ''1'' ''hello'' ''27117654321'' ''909''"
          "[]"
          "from_element plus_prefix
             (create_ussd_reception_element ''1'' ''123456'' ''1'' ''hello'' ''27117654321''
                ''909'')"
          plus_prefix empty_state None]
    by (simp add: canned_parse_document_def resume_parts from_element_created plus_prefix_def
          load_session_def empty_state_def tag_created)
  then show ?thesis
    by simp
qed

subsection \<open>C4: the first notification of a session\<close>

lemma handle_raw_new:
  assumes "msgType message = Some ''0''"
  shows "handle_raw_inbound_message session_id linkid message st
     = (Inr (),
        st\<lparr>sessions := (sessions st)(session_id \<mapsto> [''ussd_code'' \<mapsto> serviceCode message]),
           published := published st @
             [\<lparr>content = None, to_addr = serviceCode message, from_addr = msisdn message,
               provider = ''parlayx_ussd'', session_event = SESSION_NEW,
               transport_type = ''ussd'', transport_metadata = astuple message\<rparr>]\<rparr>)"
  using assms
  by (simp add: handle_raw_inbound_message_def determine_session_event_def Let_def
        create_session_def publish_message_def)

text \<open>
  C4. For a notification whose message type is \<open>'0'\<close> (NEW), whatever its
  \<open>ussdString\<close>, \<open>handle_raw_inbound_message\<close> succeeds, publishes exactly one
  inbound event whose content is \<open>None\<close>, whose \<open>to_addr\<close> is the notification's
  \<open>serviceCode\<close> and whose \<open>from_addr\<close> is the normalised \<open>msIsdn\<close>, and
  writes a session record under the session identifier that stores that service code.
\<close>

theorem C4_new_session:
  assumes "message = from_element normalize_address root"
    and "msgType message = Some ''0''"
  shows "handle_raw_inbound_message session_id linkid message st
     = (Inr (),
        st\<lparr>sessions := (sessions st)(session_id \<mapsto>
             [''ussd_code'' \<mapsto> gettext root (Some NOTIFICATION_NS, ''serviceCode'') None id]),
           published := published st @
             [\<lparr>content = None,
               to_addr = gettext root (Some NOTIFICATION_NS, ''serviceCode'') None id,
               from_addr = map_option normalize_address
                 (gettext root (Some NOTIFICATION_NS, ''msIsdn'') None id),
               provider = ''parlayx_ussd'', session_event = SESSION_NEW,
               transport_type = ''ussd'', transport_metadata = astuple message\<rparr>]\<rparr>)"
proof -
  have sc: "serviceCode message = gettext root (Some NOTIFICATION_NS, ''serviceCode'') None id"
    by (simp add: assms(1) from_element_def)
  have ms: "msisdn message = map_option normalize_address
              (gettext root (Some NOTIFICATION_NS, ''msIsdn'') None id)"
    by (simp add: assms(1) from_element_def gettext_parse [of _ _ normalize_address])
  show ?thesis
    using handle_raw_new [OF assms(2), of session_id linkid st]
    by (simp only: sc ms)
qed

lemma new_message:
  "from_element plus_prefix
     (create_ussd_reception_element ''0'' ''123456'' ''1'' ''*909*100#'' ''27117654321'' ''909'')
   = \<lparr>msgType = Some ''0'', senderCB = Some ''123456'', receiveCB = Some ''123456'',
      ussdOpType = Some ''1'', msisdn = Some ''+27117654321'', serviceCode = Some ''909'',
      codeScheme = None, ussdString = Some ''*909*100#''\<rparr>"
  by (simp add: from_element_created plus_prefix_def)

theorem C4_new_session_witness:
  "handle_raw_inbound_message (Some ''123456'') None
     \<lparr>msgType = Some ''0'', senderCB = Some ''123456'', receiveCB = Some ''123456'',
      ussdOpType = Some ''1'', msisdn = Some ''+27117654321'', serviceCode = Some ''909'',
      codeScheme = None, ussdString = Some ''*909*100#''\<rparr> empty_state
   = (Inr (),
      \<lparr>sessions = [Some ''123456'' \<mapsto> [''ussd_code'' \<mapsto> Some ''909'']],
       published =
         [\<lparr>content = None, to_addr = Some ''909'', from_addr = Some ''+27117654321'',
           provider = ''parlayx_ussd'', session_event = SESSION_NEW,
           transport_type = ''ussd'',
           transport_metadata =
             [Some ''0'', Some ''123456'', Some ''123456'', Some ''1'', Some ''+27117654321'',
              Some ''909'', None, Some ''*909*100#'']\<rparr>],
       events = []\<rparr>)"
  using C4_new_session [of
          "from_element plus_prefix
             (create_ussd_reception_element ''0'' ''123456'' ''1'' ''*909*100#''
                ''27117654321'' ''909'')"
          plus_prefix
          "create_ussd_reception_element ''0'' ''123456'' ''1'' ''*909*100#'' ''27117654321''
             ''909''"
          "Some ''123456''" None empty_state]
  by (simp add: new_message empty_state_def astuple_def)
     (simp add: create_ussd_reception_element_def text_element_def gettext_def plus_prefix_def)


subsection \<open>C7: the response to a dispatched notification\<close>





subsection \<open>C9: wrapping and unwrapping an envelope\<close>

text \<open>
  C9, as the envelope functions are used. Unwrapping a wrapped envelope never fails. It
  gives the envelope's \<open>Body\<close> element, whose only child is the original body, and
  the envelope's \<open>Header\<close> element, whose only child is the supplied header, or no
  header when none was supplied.
\<close>

theorem C9_envelope_round_trip:
  "unwrap_soap_envelope (soap_envelope body header)
     = Inr (Element (Some SOAP_ENV, ''Body'') None [body],
            map_option (\<lambda>h. Element (Some SOAP_ENV, ''Header'') None [h]) header)"
  by (cases header) (simp_all add: unwrap_soap_envelope_def soap_envelope_def elemfind_def)

theorem C9_envelope_round_trip_witness:
  "unwrap_soap_envelope
     (soap_envelope (Element (None, ''done'') None [])
        (Some (Element (Some PARLAYX_COMMON_NS, ''NotifySOAPHeader'') None
                 [text_element PARLAYX_COMMON_NS ''linkid'' ''linkid''])))
     = Inr (Element (Some SOAP_ENV, ''Body'') None [Element (None, ''done'') None []],
            Some (Element (Some SOAP_ENV, ''Header'') None
                    [Element (Some PARLAYX_COMMON_NS, ''NotifySOAPHeader'') None
                       [text_element PARLAYX_COMMON_NS ''linkid'' ''linkid'']]))
   \<and> unwrap_soap_envelope (soap_envelope (Element (None, ''done'') None []) None)
     = Inr (Element (Some SOAP_ENV, ''Body'') None [Element (None, ''done'') None []], None)"
  using C9_envelope_round_trip [of "Element (None, ''done'') None []"
          "Some (Element (Some PARLAYX_COMMON_NS, ''NotifySOAPHeader'') None
                   [text_element PARLAYX_COMMON_NS ''linkid'' ''linkid''])"]
        C9_envelope_round_trip [of "Element (None, ''done'') None []" None]
  by simp

text \<open>
  C9 as stated fails: what is unwrapped is the \<open>Body\<close> element around the original
  body, not the body itself.
\<close>

theorem C9_counterexample:
  "unwrap_soap_envelope (soap_envelope (Element (None, ''done'') None []) None)
     \<noteq> Inr (Element (None, ''done'') None [], None)"
  by (simp add: unwrap_soap_envelope_def soap_envelope_def elemfind_def)

subsection \<open>C8: the request header of an outbound call\<close>

lemma digit_char_digit: "digit_char d \<in> set ''0123456789''"
  unfolding digit_char_def by (rule nth_mem) simp

lemma str_nat_digits: "set (str_nat n) \<subseteq> set ''0123456789''"
proof (induction n rule: str_nat.induct)
  case (1 n)
  show ?case
  proof (cases "n < 10")
    case True
    then show ?thesis
      using digit_char_digit [of n] by (subst str_nat.simps) simp
  next
    case False
    then show ?thesis
      using "1.IH" digit_char_digit [of "n mod 10"] by (subst str_nat.simps) simp
  qed
qed

lemma str_nat_length: "0 < k \<Longrightarrow> n < 10 ^ k \<Longrightarrow> length (str_nat n) \<le> k"
proof (induction k arbitrary: n)
  case 0
  then show ?case by simp
next
  case (Suc k)
  show ?case
  proof (cases "n < 10")
    case True
    then show ?thesis by (subst str_nat.simps) simp
  next
    case False
    then have k: "0 < k"
      using Suc.prems by (cases k) auto
    have "n div 10 < 10 ^ k"
      using Suc.prems by (simp add: less_mult_imp_div_less mult.commute)
    then have "length (str_nat (n div 10)) \<le> k"
      using Suc.IH k by simp
    then show ?thesis
      using False by (subst str_nat.simps) simp
  qed
qed

lemma zfill_length: "length s \<le> width \<Longrightarrow> length (zfill width s) = width"
  by (simp add: zfill_def)

lemma zfill_digits: "set s \<subseteq> set ''0123456789'' \<Longrightarrow> set (zfill width s) \<subseteq> set ''0123456789''"
  by (auto simp: zfill_def)

lemma zfill_str_nat_2: "n < 100 \<Longrightarrow> length (zfill 2 (str_nat n)) = 2"
  using str_nat_length [of 2 n] by (simp add: zfill_length)

lemma zfill_str_nat_4: "n < 10000 \<Longrightarrow> length (zfill 4 (str_nat n)) = 4"
  using str_nat_length [of 4 n] by (simp add: zfill_length)

lemma format_timestamp_length: "valid_datetime d \<Longrightarrow> length (format_timestamp d) = 14"
  by (simp add: valid_datetime_def format_timestamp_def zfill_str_nat_2 zfill_str_nat_4)

lemma format_timestamp_digits: "set (format_timestamp d) \<subseteq> set ''0123456789''"
  unfolding format_timestamp_def set_append
  by (intro Un_least zfill_digits str_nat_digits)

lemma test_timestamp: "format_timestamp test_now = ''20130618105933''"
  by (simp add: format_timestamp_def test_now_def zfill_def str_nat.simps digit_char_def)


text \<open>
  C8. For every call, with the clock reading \<open>now\<close> of that call, the header is a
  \<open>RequestSOAPHeader\<close> whose first four children are the provider id, the
  credential, the provisioned service id and the timestamp. The timestamp is the
  14-digit string \<open>format_timestamp now\<close>; the credential is the hash of the
  concatenation of provider id, password and that same timestamp, computed from the
  reading of this call. After them come the \<open>OA\<close> element exactly when a subscription
  address is given and the \<open>linkid\<close> element exactly when a link identifier is
  given, and nothing else: an argument that is \<open>None\<close> leaves no element. The last
  four conjuncts say the same of the children's tags and texts as they are read off the
  elements.
\<close>

theorem C8_request_header:
  assumes "valid_datetime now"
    and "header = make_header hash self now service_subscription_address linkid"
    and "timestamp = format_timestamp now"
  shows "tag header = (Some PARLAYX_HEAD_NS, ''RequestSOAPHeader'')
    \<and> take 4 (getchildren header)
        = [text_element PARLAYX_HEAD_NS ''spId'' (service_provider_id self),
           text_element PARLAYX_HEAD_NS ''spPassword''
             (hash (service_provider_id self @ service_provider_password self @ timestamp)),
           text_element PARLAYX_HEAD_NS ''serviceId'' (service_provider_service_id self),
           text_element PARLAYX_HEAD_NS ''timeStamp'' timestamp]
    \<and> length timestamp = 14
    \<and> set timestamp \<subseteq> set ''0123456789''
    \<and> drop 4 (getchildren header)
        = (case service_subscription_address of
             None \<Rightarrow> []
           | Some a \<Rightarrow> [text_element PARLAYX_HEAD_NS ''OA'' a])
          @ (case linkid of
               None \<Rightarrow> []
             | Some l \<Rightarrow> [text_element PARLAYX_HEAD_NS ''linkid'' l])
    \<and> (elemfind header (Some PARLAYX_HEAD_NS, ''OA'')
          = map_option (text_element PARLAYX_HEAD_NS ''OA'') service_subscription_address)
    \<and> (elemfind header (Some PARLAYX_HEAD_NS, ''linkid'')
          = map_option (text_element PARLAYX_HEAD_NS ''linkid'') linkid)
    \<and> map tag (take 4 (getchildren header))
        = [(Some PARLAYX_HEAD_NS, ''spId''), (Some PARLAYX_HEAD_NS, ''spPassword''),
           (Some PARLAYX_HEAD_NS, ''serviceId''), (Some PARLAYX_HEAD_NS, ''timeStamp'')]
    \<and> map elem_text (take 4 (getchildren header))
        = [Some (service_provider_id self),
           Some (hash (service_provider_id self @ service_provider_password self @ timestamp)),
           Some (service_provider_service_id self), Some timestamp]
    \<and> map tag (drop 4 (getchildren header))
        = (case service_subscription_address of
             None \<Rightarrow> []
           | Some a \<Rightarrow> [(Some PARLAYX_HEAD_NS, ''OA'')])
          @ (case linkid of
               None \<Rightarrow> []
             | Some l \<Rightarrow> [(Some PARLAYX_HEAD_NS, ''linkid'')])
    \<and> map elem_text (drop 4 (getchildren header))
        = (case service_subscription_address of None \<Rightarrow> [] | Some a \<Rightarrow> [Some a])
          @ (case linkid of None \<Rightarrow> [] | Some l \<Rightarrow> [Some l])"
proof -
  have len: "length timestamp = 14"
    using assms(1,3) by (simp add: format_timestamp_length)
  have dig: "set timestamp \<subseteq> set ''0123456789''"
    unfolding assms(3) by (rule format_timestamp_digits)
  have rest: "tag header = (Some PARLAYX_HEAD_NS, ''RequestSOAPHeader'')
    \<and> take 4 (getchildren header)
        = [text_element PARLAYX_HEAD_NS ''spId'' (service_provider_id self),
           text_element PARLAYX_HEAD_NS ''spPassword''
             (hash (service_provider_id self @ service_provider_password self @ timestamp)),
           text_element PARLAYX_HEAD_NS ''serviceId'' (service_provider_service_id self),
           text_element PARLAYX_HEAD_NS ''timeStamp'' timestamp]
    \<and> drop 4 (getchildren header)
        = (case service_subscription_address of
             None \<Rightarrow> []
           | Some a \<Rightarrow> [text_element PARLAYX_HEAD_NS ''OA'' a])
          @ (case linkid of
               None \<Rightarrow> []
             | Some l \<Rightarrow> [text_element PARLAYX_HEAD_NS ''linkid'' l])"
    by (simp add: assms(2,3) make_header_def make_password_def Let_def)
  have oa: "elemfind header (Some PARLAYX_HEAD_NS, ''OA'')
          = map_option (text_element PARLAYX_HEAD_NS ''OA'') service_subscription_address"
    by (cases service_subscription_address; cases linkid)
       (simp_all add: assms(2) make_header_def elemfind_def text_element_def Let_def)
  have li: "elemfind header (Some PARLAYX_HEAD_NS, ''linkid'')
          = map_option (text_element PARLAYX_HEAD_NS ''linkid'') linkid"
    by (cases service_subscription_address; cases linkid)
       (simp_all add: assms(2) make_header_def elemfind_def text_element_def Let_def)
  have obs: "map tag (take 4 (getchildren header))
        = [(Some PARLAYX_HEAD_NS, ''spId''), (Some PARLAYX_HEAD_NS, ''spPassword''),
           (Some PARLAYX_HEAD_NS, ''serviceId''), (Some PARLAYX_HEAD_NS, ''timeStamp'')]
    \<and> map elem_text (take 4 (getchildren header))
        = [Some (service_provider_id self),
           Some (hash (service_provider_id self @ service_provider_password self @ timestamp)),
           Some (service_provider_service_id self), Some timestamp]
    \<and> map tag (drop 4 (getchildren header))
        = (case service_subscription_address of
             None \<Rightarrow> []
           | Some a \<Rightarrow> [(Some PARLAYX_HEAD_NS, ''OA'')])
          @ (case linkid of
               None \<Rightarrow> []
             | Some l \<Rightarrow> [(Some PARLAYX_HEAD_NS, ''linkid'')])
    \<and> map elem_text (drop 4 (getchildren header))
        = (case service_subscription_address of None \<Rightarrow> [] | Some a \<Rightarrow> [Some a])
          @ (case linkid of None \<Rightarrow> [] | Some l \<Rightarrow> [Some l])"
    by (cases service_subscription_address; cases linkid)
       (simp_all add: assms(2,3) make_header_def make_password_def text_element_def Let_def)
  show ?thesis
    using len dig rest oa li obs by simp
qed

lemma test_now_valid: "valid_datetime test_now"
  by (simp add: valid_datetime_def test_now_def)

theorem C8_request_header_witness:
  "valid_datetime test_now
   \<and> make_header rev test_client test_now (Some ''+27117654321'') None
     = Element (Some PARLAYX_HEAD_NS, ''RequestSOAPHeader'') None
         [text_element PARLAYX_HEAD_NS ''spId'' ''user'',
          text_element PARLAYX_HEAD_NS ''spPassword'' (rev ''userpassword20130618105933''),
          text_element PARLAYX_HEAD_NS ''serviceId'' ''service_id'',
          text_element PARLAYX_HEAD_NS ''timeStamp'' ''20130618105933'',
          text_element PARLAYX_HEAD_NS ''OA'' ''+27117654321'']
   \<and> elemfind (make_header rev test_client test_now (Some ''+27117654321'') None)
       (Some PARLAYX_HEAD_NS, ''linkid'') = None
   \<and> elemfind (make_header rev test_client test_now None None)
       (Some PARLAYX_HEAD_NS, ''OA'') = None
   \<and> length (getchildren (make_header rev test_client test_now None None)) = 4"
proof -
  note h1 = C8_request_header [OF test_now_valid refl refl, of rev test_client
              "Some ''+27117654321''" None]
  note h2 = C8_request_header [OF test_now_valid refl refl, of rev test_client None None]
  have e1: "make_header rev test_client test_now (Some ''+27117654321'') None
     = Element (Some PARLAYX_HEAD_NS, ''RequestSOAPHeader'') None
         (take 4 (getchildren (make_header rev test_client test_now (Some ''+27117654321'') None))
          @ drop 4 (getchildren (make_header rev test_client test_now (Some ''+27117654321'')
              None)))"
    by (simp add: make_header_def Let_def)
  have l2: "length (getchildren (make_header rev test_client test_now None None))
          = length (take 4 (getchildren (make_header rev test_client test_now None None)))
            + length (drop 4 (getchildren (make_header rev test_client test_now None None)))"
    by simp
  show ?thesis
    using h1 h2 test_now_valid
    by (subst e1, subst l2) (simp add: test_timestamp test_client_def del: append_take_drop_id)
qed

end
